theory Spec2Isabelle
  imports Complex_Main
begin

section \<open>Numbers, vectors and the three.js primitives the components call\<close>

text \<open>
  The two components (\<^verbatim>\<open>src/components/Ornaments.tsx\<close> and
  \<^verbatim>\<open>src/components/Experience.tsx\<close>) compute with JavaScript numbers. They are
  idealised here as the real numbers: every arithmetic operation is exact, and there is
  no NaN and no Infinity. \<^verbatim>\<open>Math.PI\<close> is \<^term>\<open>pi\<close>, \<^verbatim>\<open>Math.sin\<close> is \<^term>\<open>sin\<close>.

  \<^verbatim>\<open>THREE.Vector3\<close> is a record of three coordinates. The fields are called
  \<open>vx\<close>, \<open>vy\<close>, \<open>vz\<close> (for \<^verbatim>\<open>.x\<close>, \<^verbatim>\<open>.y\<close>, \<^verbatim>\<open>.z\<close>).
\<close>

record Vector3 =
  vx :: real
  vy :: real
  vz :: real

text \<open>\<^verbatim>\<open>THREE.Euler\<close>: the three rotation angles (the order field is never changed).\<close>

record Euler =
  ex :: real
  ey :: real
  ez :: real

text \<open>
  \<^verbatim>\<open>Vector3.lerp(v, alpha)\<close> of three.js:
  \<^verbatim>\<open>this.x += (v.x - this.x) * alpha; this.y += ...; this.z += ...\<close>.
  It does not clamp \<open>alpha\<close>.
\<close>

definition lerp :: "Vector3 \<Rightarrow> Vector3 \<Rightarrow> real \<Rightarrow> Vector3" where
  "lerp p v alpha =
     \<lparr> vx = vx p + (vx v - vx p) * alpha,
       vy = vy p + (vy v - vy p) * alpha,
       vz = vz p + (vz v - vz p) * alpha \<rparr>"

text \<open>\<^verbatim>\<open>Vector3.distanceTo(v)\<close>: the Euclidean distance.\<close>

definition distanceTo :: "Vector3 \<Rightarrow> Vector3 \<Rightarrow> real" where
  "distanceTo p v = sqrt ((vx p - vx v)\<^sup>2 + (vy p - vy v)\<^sup>2 + (vz p - vz v)\<^sup>2)"

text \<open>\<^verbatim>\<open>Vector3.setScalar(s)\<close> and \<^verbatim>\<open>Vector3.multiplyScalar(s)\<close>.\<close>

definition setScalar :: "real \<Rightarrow> Vector3" where
  "setScalar s = \<lparr> vx = s, vy = s, vz = s \<rparr>"

definition multiplyScalar :: "Vector3 \<Rightarrow> real \<Rightarrow> Vector3" where
  "multiplyScalar p s = \<lparr> vx = vx p * s, vy = vy p * s, vz = vz p * s \<rparr>"

definition add :: "Vector3 \<Rightarrow> Vector3 \<Rightarrow> Vector3" where
  "add p v = \<lparr> vx = vx p + vx v, vy = vy p + vy v, vz = vz p + vz v \<rparr>"

definition sub :: "Vector3 \<Rightarrow> Vector3 \<Rightarrow> Vector3" where
  "sub p v = \<lparr> vx = vx p - vx v, vy = vy p - vy v, vz = vz p - vz v \<rparr>"

section \<open>Ornaments: the data model\<close>

text \<open>
  \<^verbatim>\<open>type OrnamentType = 'ball' | 'gift' | 'light'\<close>. The constructors carry a
  \<open>T\<close> because \<open>Ball\<close> is the bounded quantifier of HOL.
\<close>

datatype OrnamentType = BallT | GiftT | LightT

text \<open>
  \<^verbatim>\<open>TreeMode\<close> is declared in \<^verbatim>\<open>../types\<close>; the components only compare it
  with \<^verbatim>\<open>TreeMode.FORMED\<close>. The other state is the scattered one.
\<close>

datatype TreeMode = CHAOS | FORMED

text \<open>
  \<^verbatim>\<open>interface InstanceData\<close>. A \<^verbatim>\<open>THREE.Color\<close> is kept as the hex string it was
  built from; the field is an option because \<^verbatim>\<open>palette[k]\<close> is \<^verbatim>\<open>undefined\<close>
  for an index outside the palette.
\<close>

type_synonym Color = string

record InstanceData =
  chaosPos :: Vector3
  targetPos :: Vector3
  ornType :: OrnamentType
  color :: "Color option"
  scale :: real
  speed :: real
  rotationOffset :: Euler

text \<open>
  The helper object \<^verbatim>\<open>dummy\<close> (a \<^verbatim>\<open>THREE.Object3D\<close>): position, rotation and
  scale. A 4x4 instance matrix is represented by the triple it decomposes into, so
  \<^verbatim>\<open>getMatrixAt\<close> followed by \<^verbatim>\<open>decompose\<close> reads the triple and
  \<^verbatim>\<open>updateMatrix\<close> followed by \<^verbatim>\<open>setMatrixAt\<close> stores it. Each pass of the
  loop overwrites all three parts of \<^verbatim>\<open>dummy\<close> before it reads them, so the shared
  object carries nothing from one instance to the next.
\<close>

record Object3D =
  position :: Vector3
  rotation :: Euler
  objScale :: Vector3

text \<open>
  \<^verbatim>\<open>THREE.InstancedMesh\<close>: the buffer \<^verbatim>\<open>instanceMatrix\<close> with one transform per
  instance, and the buffer's \<^verbatim>\<open>version\<close>. In three.js the assignment
  \<^verbatim>\<open>instanceMatrix.needsUpdate = true\<close> is a setter that increments
  \<^verbatim>\<open>version\<close>; the renderer uploads the buffer when the version has changed. So
  \<open>version\<close> counts how often the buffer was marked dirty.
\<close>

record InstancedMesh =
  instanceMatrix :: "Object3D list"
  version :: nat

definition set_needsUpdate :: "InstancedMesh \<Rightarrow> InstancedMesh" where
  "set_needsUpdate m = m\<lparr> version := version m + 1 \<rparr>"

section \<open>Ornaments: the per-frame update (\<^verbatim>\<open>updateMesh\<close>)\<close>

text \<open>Line 131: \<^verbatim>\<open>const dest = isFormed ? d.targetPos : d.chaosPos\<close>.\<close>

definition dest :: "bool \<Rightarrow> InstanceData \<Rightarrow> Vector3" where
  "dest isFormed d = (if isFormed then targetPos d else chaosPos d)"

text \<open>
  Lines 168-169: \<^verbatim>\<open>const step = delta * d.speed; dummy.position.lerp(dest, step)\<close>.
  The value of \<^verbatim>\<open>dummy.position\<close> after line 169, from the position read back
  from the buffer.
\<close>

definition lerpPosition :: "bool \<Rightarrow> real \<Rightarrow> InstanceData \<Rightarrow> Vector3 \<Rightarrow> Vector3" where
  "lerpPosition isFormed delta d p = (let step = delta * speed d in lerp p (dest isFormed d) step)"

text \<open>
  Lines 172-174, the wobble:
  \<^verbatim>\<open>if (isFormed && dummy.position.distanceTo(d.targetPos) < 0.5)
     dummy.position.y += Math.sin(time * 2 + d.chaosPos.x) * 0.002\<close>.
\<close>

definition wobble :: "bool \<Rightarrow> real \<Rightarrow> InstanceData \<Rightarrow> Vector3 \<Rightarrow> Vector3" where
  "wobble isFormed time d p =
     (if isFormed \<and> distanceTo p (targetPos d) < 0.5
      then p\<lparr> vy := vy p + sin (time * 2 + vx (chaosPos d)) * 0.002 \<rparr>
      else p)"

text \<open>
  The body of \<^verbatim>\<open>data.forEach((d, i) => ...)\<close>, lines 128-194, as a function from the
  transform read at index \<open>i\<close> to the transform written at index \<open>i\<close>.
  \<^verbatim>\<open>Object3D.lookAt\<close> is three.js code that builds a rotation from the object's
  position and the point looked at; it is the parameter \<open>lookAt\<close>.
\<close>

definition updateInstance ::
  "(Vector3 \<Rightarrow> Vector3 \<Rightarrow> Euler) \<Rightarrow> bool \<Rightarrow> real \<Rightarrow> real \<Rightarrow> InstanceData \<Rightarrow> Object3D \<Rightarrow> Object3D" where
  "updateInstance lookAt isFormed time delta d dummy =
     (let pos = wobble isFormed time d (lerpPosition isFormed delta d (position dummy));
          rot = (if ornType d = GiftT
                 then (rotation dummy)\<lparr> ex := ex (rotation dummy) + delta * 0.5,
                                          ey := ey (rotation dummy) + delta * 0.2 \<rparr>
                 else lookAt pos \<lparr> vx = 0, vy = vy pos, vz = 0 \<rparr>);
          sc = setScalar (scale d);
          sc' = (if ornType d = LightT
                 then (let pulse = 1 + sin (time * 5 + vy (chaosPos d)) * 0.3
                       in multiplyScalar sc pulse)
                 else sc)
      in \<lparr> position = pos, rotation = rot, objScale = sc' \<rparr>)"

text \<open>
  The loop \<^verbatim>\<open>data.forEach\<close> with its index, threading the buffer and the local flag
  \<^verbatim>\<open>needsUpdate\<close>. The mesh is created with \<^verbatim>\<open>data.length\<close> instances, so the
  index is in range; a write outside a typed array is dropped by JavaScript, as
  \<^term>\<open>list_update\<close> drops it.
\<close>

fun forEach_data ::
  "(Vector3 \<Rightarrow> Vector3 \<Rightarrow> Euler) \<Rightarrow> bool \<Rightarrow> real \<Rightarrow> real \<Rightarrow> InstanceData list \<Rightarrow> nat
     \<Rightarrow> Object3D list \<times> bool \<Rightarrow> Object3D list \<times> bool" where
  "forEach_data lookAt isFormed time delta [] i (ms, needsUpdate) = (ms, needsUpdate)"
| "forEach_data lookAt isFormed time delta (d # ds) i (ms, needsUpdate) =
     forEach_data lookAt isFormed time delta ds (Suc i)
       (ms[i := updateInstance lookAt isFormed time delta d (ms ! i)], True)"

text \<open>
  \<^verbatim>\<open>updateMesh(ref, data)\<close>, lines 123-198. \<^verbatim>\<open>ref.current\<close> is \<open>None\<close> when
  the mesh is not attached: \<^verbatim>\<open>if (!ref.current) return\<close>.
\<close>

definition updateMesh ::
  "(Vector3 \<Rightarrow> Vector3 \<Rightarrow> Euler) \<Rightarrow> bool \<Rightarrow> real \<Rightarrow> real \<Rightarrow> InstancedMesh option \<Rightarrow> InstanceData list
     \<Rightarrow> InstancedMesh option" where
  "updateMesh lookAt isFormed time delta ref data =
     (case ref of
        None \<Rightarrow> None
      | Some m \<Rightarrow>
          (case forEach_data lookAt isFormed time delta data 0 (instanceMatrix m, False) of
             (ms, needsUpdate) \<Rightarrow>
               (let m' = m\<lparr> instanceMatrix := ms \<rparr>
                in Some (if needsUpdate then set_needsUpdate m' else m'))))"

text \<open>The three mesh refs of the component and the three data arrays.\<close>

record Refs =
  ballsRef :: "InstancedMesh option"
  giftsRef :: "InstancedMesh option"
  lightsRef :: "InstancedMesh option"

record Dataset =
  ballsData :: "InstanceData list"
  giftsData :: "InstanceData list"
  lightsData :: "InstanceData list"

text \<open>
  The \<^verbatim>\<open>useFrame\<close> callback of \<^verbatim>\<open>Ornaments\<close>, lines 118-203: \<open>time\<close> is
  \<^verbatim>\<open>state.clock.elapsedTime\<close>.
\<close>

definition useFrame_Ornaments ::
  "(Vector3 \<Rightarrow> Vector3 \<Rightarrow> Euler) \<Rightarrow> TreeMode \<Rightarrow> Dataset \<Rightarrow> real \<Rightarrow> real \<Rightarrow> Refs \<Rightarrow> Refs" where
  "useFrame_Ornaments lookAt mode ds time delta refs =
     (let isFormed = (mode = FORMED)
      in \<lparr> ballsRef = updateMesh lookAt isFormed time delta (ballsRef refs) (ballsData ds),
           giftsRef = updateMesh lookAt isFormed time delta (giftsRef refs) (giftsData ds),
           lightsRef = updateMesh lookAt isFormed time delta (lightsRef refs) (lightsData ds) \<rparr>)"

text \<open>
  The formula of the specification for the position update, in its own words:
  \<open>newPosition = currentPosition + (destination - currentPosition) * clamp(delta * instanceSpeed, 0, 1)\<close>.
\<close>

definition clamp :: "real \<Rightarrow> real \<Rightarrow> real \<Rightarrow> real" where
  "clamp v lo hi = max lo (min hi v)"

definition spec_newPosition :: "Vector3 \<Rightarrow> Vector3 \<Rightarrow> real \<Rightarrow> real \<Rightarrow> Vector3" where
  "spec_newPosition currentPosition destination delta instanceSpeed =
     add currentPosition
       (multiplyScalar (sub destination currentPosition) (clamp (delta * instanceSpeed) 0 1))"

section \<open>Ornaments: the dataset generator (\<^verbatim>\<open>useMemo\<close>, lines 33-100)\<close>

text \<open>
  The random source is the sequence of values that successive calls of
  \<^verbatim>\<open>Math.random()\<close> return; a cursor counts the calls made so far. A call returns
  the value under the cursor and advances it.
\<close>

type_synonym RandomSource = "nat \<Rightarrow> real"

definition Math_random :: "RandomSource \<Rightarrow> nat \<Rightarrow> real \<times> nat" where
  "Math_random rs k = (rs k, Suc k)"

definition height :: real where "height = 11"
definition maxRadius :: real where "maxRadius = 4.5"

definition gold :: Color where "gold = ''#D4AF37''"
definition red :: Color where "red = ''#8B0000''"
definition emerald :: Color where "emerald = ''#004422''"
definition whiteGold :: Color where "whiteGold = ''#F5E6BF''"

definition palette :: "Color list" where
  "palette = [gold, red, gold, whiteGold]"

text \<open>\<^verbatim>\<open>palette[k]\<close> for an integer \<open>k\<close>: \<^verbatim>\<open>undefined\<close> outside the array.\<close>

definition palette_at :: "int \<Rightarrow> Color option" where
  "palette_at k = (if 0 \<le> k \<and> k < int (length palette) then Some (palette ! nat k) else None)"

text \<open>
  Lines 51-53:
  \<^verbatim>\<open>let type = 'ball'; if (rnd > 0.8) type = 'gift'; if (rnd > 0.9) type = 'light'\<close>.
\<close>

definition ornamentType :: "real \<Rightarrow> OrnamentType" where
  "ornamentType rnd =
     (let type0 = BallT;
          type1 = (if rnd > 0.8 then GiftT else type0);
          type2 = (if rnd > 0.9 then LightT else type1)
      in type2)"

text \<open>
  One pass of the loop body, lines 50-92: the record built and the cursor after it. The
  calls of \<^verbatim>\<open>Math.random()\<close> are taken in the order in which the source evaluates
  them. A light draws nothing for its scale and its colour. \<^verbatim>\<open>Math.pow(u, 2.5)\<close>
  is \<open>u powr 2.5\<close> (equal for \<open>u \<ge> 0\<close>), \<^verbatim>\<open>Math.acos\<close> is \<^term>\<open>arccos\<close>.
\<close>

definition makeInstance :: "RandomSource \<Rightarrow> nat \<Rightarrow> InstanceData \<times> nat" where
  "makeInstance rs k0 =
     (let (rnd, k1) = Math_random rs k0;
          type = ornamentType rnd;
          (u2, k2) = Math_random rs k1;
          yNorm = u2 powr 2.5;
          y = yNorm * height + 0.5;
          rScale = 1 - yNorm;
          (u3, k3) = Math_random rs k2;
          theta = y * 10 + u3 * pi * 2;
          (u4, k4) = Math_random rs k3;
          r = maxRadius * rScale + u4 * 0.5;
          tPos = \<lparr> vx = r * cos theta, vy = y, vz = r * sin theta \<rparr>;
          (u5, k5) = Math_random rs k4;
          cR = 15 + u5 * 15;
          (u6, k6) = Math_random rs k5;
          cTheta = u6 * pi * 2;
          (u7, k7) = Math_random rs k6;
          cPhi = arccos (2 * u7 - 1);
          cPos = \<lparr> vx = cR * sin cPhi * cos cTheta,
                   vy = cR * sin cPhi * sin cTheta + 5,
                   vz = cR * cos cPhi \<rparr>;
          (sc, k8) = (if type = LightT then (0.15, k7)
                      else (let (u8, k) = Math_random rs k7 in (0.2 + u8 * 0.25, k)));
          (col, k9) = (if type = LightT then (Some ''#FFFFAA'', k8)
                       else (let (u9, k) = Math_random rs k8
                             in (palette_at \<lfloor>u9 * real (length palette)\<rfloor>, k)));
          (u10, k10) = Math_random rs k9;
          (u11, k11) = Math_random rs k10;
          (u12, k12) = Math_random rs k11
      in (\<lparr> chaosPos = cPos, targetPos = tPos, ornType = type, color = col, scale = sc,
             speed = 0.5 + u10 * 1.5,
             rotationOffset = \<lparr> ex = u11 * pi, ey = u12 * pi, ez = 0 \<rparr> \<rparr>, k12))"

text \<open>Lines 94-96: the record is pushed onto the array of its type.\<close>

definition push :: "InstanceData \<Rightarrow> Dataset \<Rightarrow> Dataset" where
  "push d acc =
     (if ornType d = BallT then acc\<lparr> ballsData := ballsData acc @ [d] \<rparr>
      else if ornType d = GiftT then acc\<lparr> giftsData := giftsData acc @ [d] \<rparr>
      else acc\<lparr> lightsData := lightsData acc @ [d] \<rparr>)"

text \<open>
  The loop \<^verbatim>\<open>for (let i = 0; i < count; i++)\<close>: the first number is the number of
  passes still to run, \<open>count - i\<close>; the second is the cursor of the random source.
\<close>

fun generate_loop :: "RandomSource \<Rightarrow> nat \<Rightarrow> nat \<Rightarrow> Dataset \<Rightarrow> Dataset" where
  "generate_loop rs 0 k acc = acc"
| "generate_loop rs (Suc n) k acc =
     (case makeInstance rs k of (d, k') \<Rightarrow> generate_loop rs n k' (push d acc))"

text \<open>The whole generator: the three arrays start empty, \<open>count\<close> is the prop.\<close>

definition generate :: "RandomSource \<Rightarrow> nat \<Rightarrow> Dataset" where
  "generate rs count =
     generate_loop rs count 0 \<lparr> ballsData = [], giftsData = [], lightsData = [] \<rparr>"

section \<open>Experience: the camera callback (\<^verbatim>\<open>useFrame\<close>, lines 25-73)\<close>

text \<open>The prop \<^verbatim>\<open>handPosition: { x, y, detected }\<close>.\<close>

record HandPosition =
  handX :: real
  handY :: real
  detected :: bool

text \<open>
  What the callback reads and writes of the \<^verbatim>\<open>OrbitControls\<close> object: the two
  angles that \<^verbatim>\<open>getAzimuthalAngle()\<close> and \<^verbatim>\<open>getPolarAngle()\<close> return, the camera
  position \<^verbatim>\<open>controls.object.position\<close> and \<^verbatim>\<open>controls.target\<close>.
  \<^verbatim>\<open>getDistance()\<close> is the distance between the last two.
\<close>

record Controls =
  azimuthalAngle :: real
  polarAngle :: real
  objectPosition :: Vector3
  target :: Vector3

definition getDistance :: "Controls \<Rightarrow> real" where
  "getDistance c = distanceTo (objectPosition c) (target c)"

text \<open>Line 34.\<close>

definition targetAzimuth :: "real \<Rightarrow> real" where
  "targetAzimuth x = (x - 0.5) * pi * 3"

text \<open>Lines 38-39.\<close>

definition adjustedY :: "real \<Rightarrow> real" where
  "adjustedY y = (y - 0.2) * 2.0"

definition clampedY :: "real \<Rightarrow> real" where
  "clampedY y = max 0 (min 1 (adjustedY y))"

text \<open>Lines 42-44.\<close>

definition minPolar :: real where "minPolar = pi / 4"
definition maxPolar :: real where "maxPolar = pi / 1.8"

definition targetPolar :: "real \<Rightarrow> real" where
  "targetPolar y = minPolar + clampedY y * (maxPolar - minPolar)"

text \<open>
  Lines 51-53:
  \<^verbatim>\<open>let azimuthDiff = targetAzimuth - currentAzimuth;
  if (azimuthDiff > Math.PI) azimuthDiff -= Math.PI * 2;
  if (azimuthDiff < -Math.PI) azimuthDiff += Math.PI * 2\<close>.
\<close>

definition azimuthDiff :: "real \<Rightarrow> real \<Rightarrow> real" where
  "azimuthDiff tgtAzimuth currentAzimuth =
     (let d0 = tgtAzimuth - currentAzimuth;
          d1 = (if d0 > pi then d0 - pi * 2 else d0);
          d2 = (if d1 < - pi then d1 + pi * 2 else d1)
      in d2)"

text \<open>Lines 56-58.\<close>

definition lerpSpeed :: real where "lerpSpeed = 8"

definition newAzimuth :: "real \<Rightarrow> real \<Rightarrow> real \<Rightarrow> real" where
  "newAzimuth x currentAzimuth delta =
     currentAzimuth + azimuthDiff (targetAzimuth x) currentAzimuth * delta * lerpSpeed"

definition newPolar :: "real \<Rightarrow> real \<Rightarrow> real \<Rightarrow> real" where
  "newPolar y currentPolar delta =
     currentPolar + (targetPolar y - currentPolar) * delta * lerpSpeed"

text \<open>
  The callback. \<^verbatim>\<open>controlsRef.current\<close> is \<open>None\<close> when the controls are not
  attached. \<^verbatim>\<open>controls.update()\<close> is three.js code (it recomputes the angles from the
  camera position, applies damping and the limits given as props); it is the parameter
  \<open>update\<close>.
\<close>

definition useFrame_Experience ::
  "(Controls \<Rightarrow> Controls) \<Rightarrow> Controls option \<Rightarrow> HandPosition \<Rightarrow> real \<Rightarrow> Controls option" where
  "useFrame_Experience update controlsRef handPosition delta =
     (case controlsRef of
        None \<Rightarrow> None
      | Some controls \<Rightarrow>
          (if detected handPosition then
             (let currentAzimuth = azimuthalAngle controls;
                  currentPolar = polarAngle controls;
                  nAzimuth = newAzimuth (handX handPosition) currentAzimuth delta;
                  nPolar = newPolar (handY handPosition) currentPolar delta;
                  radius = getDistance controls;
                  targetY = 4;
                  x = radius * sin nPolar * sin nAzimuth;
                  y = targetY + radius * cos nPolar;
                  z = radius * sin nPolar * cos nAzimuth
              in Some (update (controls\<lparr> objectPosition := \<lparr> vx = x, vy = y, vz = z \<rparr>,
                                          target := \<lparr> vx = 0, vy = targetY, vz = 0 \<rparr> \<rparr>)))
           else Some controls))"

text \<open>
  The props of the \<^verbatim>\<open>OrbitControls\<close> element, lines 76-86. No azimuth limits are
  given, so the azimuth is not restricted.
\<close>

definition minPolarAngle :: real where "minPolarAngle = pi / 4"
definition maxPolarAngle :: real where "maxPolarAngle = pi / 1.8"
definition minDistance :: real where "minDistance = 10"
definition maxDistance :: real where "maxDistance = 30"
definition dampingFactor :: real where "dampingFactor = 0.05"

text \<open>\<^verbatim>\<open>Math.atan2(y, x)\<close>, and the \<^verbatim>\<open>EPS\<close> of \<^verbatim>\<open>Spherical.makeSafe\<close>.\<close>

definition atan2 :: "real \<Rightarrow> real \<Rightarrow> real" where
  "atan2 y x =
     (if 0 < x then arctan (y / x)
      else if x < 0 \<and> 0 \<le> y then arctan (y / x) + pi
      else if x < 0 then arctan (y / x) - pi
      else if 0 < y then pi / 2
      else if y < 0 then - (pi / 2)
      else 0)"

definition EPS :: real where "EPS = 0.000001"

text \<open>
  Modelled from the spec: \<^verbatim>\<open>controls.update()\<close> of the orbit primitive
  (\<^verbatim>\<open>OrbitControls\<close> of three.js, whose source is not under \<^verbatim>\<open>src/\<close>). The
  specification says that the minimum and maximum distance from the target and the
  minimum and maximum polar angle are hard constraints enforced by the underlying orbit
  primitive, and that the azimuth is unbounded. The model follows the steps of the
  three.js method: the offset of the camera from the target is turned into spherical
  coordinates, the pending pointer rotation \<open>sphericalDelta\<close> (azimuth, polar) is
  added with the damping factor, the polar angle is clamped to the polar limits and
  kept off the poles, the radius is clamped to the distance limits, and the camera is put
  back at the resulting point around the target.
\<close>

definition OrbitControls_update :: "real \<times> real \<Rightarrow> Controls \<Rightarrow> Controls" where
  "OrbitControls_update sphericalDelta c =
     (let offset = sub (objectPosition c) (target c);
          radius = sqrt ((vx offset)\<^sup>2 + (vy offset)\<^sup>2 + (vz offset)\<^sup>2);
          theta0 = (if radius = 0 then 0 else atan2 (vx offset) (vz offset));
          phi0 = (if radius = 0 then 0 else arccos (clamp (vy offset / radius) (- 1) 1));
          theta1 = theta0 + fst sphericalDelta * dampingFactor;
          phi1 = phi0 + snd sphericalDelta * dampingFactor;
          phi2 = max minPolarAngle (min maxPolarAngle phi1);
          phi3 = max EPS (min (pi - EPS) phi2);
          radius1 = max minDistance (min maxDistance radius);
          sinPhiRadius = sin phi3 * radius1
      in \<lparr> azimuthalAngle = theta1, polarAngle = phi3,
           objectPosition = add (target c)
             \<lparr> vx = sinPhiRadius * sin theta1, vy = cos phi3 * radius1, vz = sinPhiRadius * cos theta1 \<rparr>,
           target = target c \<rparr>)"

section \<open>Sample inputs and auxiliary predicates\<close>

text \<open>Concrete inputs at which the theorems below are instantiated.\<close>

definition origin :: Vector3 where
  "origin = \<lparr> vx = 0, vy = 0, vz = 0 \<rparr>"

definition sampleBall :: InstanceData where
  "sampleBall =
     \<lparr> chaosPos = \<lparr> vx = 20, vy = 5, vz = 0 \<rparr>,
       targetPos = \<lparr> vx = 1, vy = 0, vz = 0 \<rparr>,
       ornType = BallT, color = Some gold, scale = 0.25, speed = 1.5,
       rotationOffset = \<lparr> ex = 0, ey = 0, ez = 0 \<rparr> \<rparr>"

definition sampleObject :: Object3D where
  "sampleObject =
     \<lparr> position = origin, rotation = \<lparr> ex = 0, ey = 0, ez = 0 \<rparr>, objScale = setScalar 1 \<rparr>"

definition sampleMesh :: InstancedMesh where
  "sampleMesh = \<lparr> instanceMatrix = [sampleObject, sampleObject], version = 0 \<rparr>"

definition sampleLookAt :: "Vector3 \<Rightarrow> Vector3 \<Rightarrow> Euler" where
  "sampleLookAt p v = \<lparr> ex = 0, ey = 0, ez = 0 \<rparr>"

text \<open>A random source whose first pass yields a gift, the second a light, the third a ball.\<close>

definition sampleSource :: RandomSource where
  "sampleSource i = (if i = 0 then 0.85 else if i = 12 then 0.95 else 0.5)"

definition sampleControls :: Controls where
  "sampleControls =
     \<lparr> azimuthalAngle = 0, polarAngle = pi / 2,
       objectPosition = \<lparr> vx = 0, vy = 4, vz = 20 \<rparr>,
       target = \<lparr> vx = 0, vy = 4, vz = 0 \<rparr> \<rparr>"

text \<open>An ornament whose chaos position has \<open>x = 0\<close>, and two transforms to read.\<close>

definition sampleAxisBall :: InstanceData where
  "sampleAxisBall =
     \<lparr> chaosPos = \<lparr> vx = 0, vy = 5, vz = 20 \<rparr>,
       targetPos = \<lparr> vx = 1, vy = 0, vz = 0 \<rparr>,
       ornType = BallT, color = Some gold, scale = 0.25, speed = 1.5,
       rotationOffset = \<lparr> ex = 0, ey = 0, ez = 0 \<rparr> \<rparr>"

definition sampleAtTarget :: Object3D where
  "sampleAtTarget =
     \<lparr> position = \<lparr> vx = 1, vy = 0, vz = 0 \<rparr>, rotation = \<lparr> ex = 0, ey = 0, ez = 0 \<rparr>,
       objScale = setScalar 1 \<rparr>"

definition sampleFar :: Object3D where
  "sampleFar =
     \<lparr> position = \<lparr> vx = - 3, vy = 0, vz = 0 \<rparr>, rotation = \<lparr> ex = 0, ey = 0, ez = 0 \<rparr>,
       objScale = setScalar 1 \<rparr>"

text \<open>A camera at the lower polar limit, 20 away from the look-at target.\<close>

definition sampleLowCamera :: Controls where
  "sampleLowCamera =
     \<lparr> azimuthalAngle = 0, polarAngle = pi / 4,
       objectPosition = \<lparr> vx = 0, vy = 4 + 10 * sqrt 2, vz = 10 * sqrt 2 \<rparr>,
       target = \<lparr> vx = 0, vy = 4, vz = 0 \<rparr> \<rparr>"

text \<open>The number of records in a dataset, over its three arrays.\<close>

definition total :: "Dataset \<Rightarrow> nat" where
  "total ds = length (ballsData ds) + length (giftsData ds) + length (lightsData ds)"

text \<open>Every array of the dataset holds records of its own type only.\<close>

definition partitioned :: "Dataset \<Rightarrow> bool" where
  "partitioned ds =
     ((\<forall>d \<in> set (ballsData ds). ornType d = BallT)
      \<and> (\<forall>d \<in> set (giftsData ds). ornType d = GiftT)
      \<and> (\<forall>d \<in> set (lightsData ds). ornType d = LightT))"

text \<open>Every speed of the dataset lies in the interval from 0.5 (included) to 2 (excluded).\<close>

definition speeds_in_range :: "Dataset \<Rightarrow> bool" where
  "speeds_in_range ds =
     (\<forall>d \<in> set (ballsData ds) \<union> set (giftsData ds) \<union> set (lightsData ds).
        0.5 \<le> speed d \<and> speed d < 2)"

section \<open>The position update of an ornament\<close>

lemma distanceTo_nonneg: "0 \<le> distanceTo p v"
  by (simp add: distanceTo_def)

text \<open>One lerp step scales the offset to the destination by \<open>1 - alpha\<close>.\<close>

lemma distanceTo_lerp: "distanceTo (lerp p v s) v = \<bar>1 - s\<bar> * distanceTo p v"
proof -
  have "(vx p + (vx v - vx p) * s - vx v)\<^sup>2 + (vy p + (vy v - vy p) * s - vy v)\<^sup>2
          + (vz p + (vz v - vz p) * s - vz v)\<^sup>2
      = (1 - s)\<^sup>2 * ((vx p - vx v)\<^sup>2 + (vy p - vy v)\<^sup>2 + (vz p - vz v)\<^sup>2)"
    by (simp add: power2_eq_square algebra_simps)
  then show ?thesis
    by (simp add: distanceTo_def lerp_def real_sqrt_mult)
qed

text \<open>
  C1, as the code has it. The position after lines 168-169 is the unclamped approach
  \<open>currentPosition + (destination - currentPosition) * (delta * speed)\<close>: the code
  passes \<open>delta * speed\<close> to \<open>lerp\<close> as it is. It equals the clamped formula of the
  specification whenever \<open>delta * speed\<close> lies between 0 and 1. The distance to the
  destination after the update is \<open>\<bar>1 - delta * speed\<bar>\<close> times the distance before, so
  a step above 1 carries the position past the destination.
\<close>

theorem lerpPosition_unclamped:
  "lerpPosition isFormed delta d p
     = add p (multiplyScalar (sub (dest isFormed d) p) (delta * speed d))
   \<and> (0 \<le> delta * speed d \<and> delta * speed d \<le> 1 \<longrightarrow>
        lerpPosition isFormed delta d p = spec_newPosition p (dest isFormed d) delta (speed d))
   \<and> distanceTo (lerpPosition isFormed delta d p) (dest isFormed d)
       = \<bar>1 - delta * speed d\<bar> * distanceTo p (dest isFormed d)"
proof -
  have "distanceTo (lerpPosition isFormed delta d p) (dest isFormed d)
       = \<bar>1 - delta * speed d\<bar> * distanceTo p (dest isFormed d)"
    by (simp add: lerpPosition_def distanceTo_lerp)
  then show ?thesis
    by (simp add: lerpPosition_def lerp_def spec_newPosition_def add_def sub_def
        multiplyScalar_def clamp_def Let_def)
qed

text \<open>C1 at half a second and speed 1.5: three quarters of the way, by both formulas.\<close>

theorem lerpPosition_unclamped_witness:
  "lerpPosition True (1/2) sampleBall origin = \<lparr> vx = 3/4, vy = 0, vz = 0 \<rparr>
   \<and> spec_newPosition origin (dest True sampleBall) (1/2) (speed sampleBall)
       = \<lparr> vx = 3/4, vy = 0, vz = 0 \<rparr>"
  using lerpPosition_unclamped [of True "1/2" sampleBall origin]
  by (simp add: sampleBall_def origin_def dest_def add_def sub_def multiplyScalar_def
      spec_newPosition_def clamp_def)

text \<open>
  C1 as the specification states it fails: with a frame of one second and speed 1.5 the
  step is 1.5, and an ornament at the origin heading for \<open>x = 1\<close> lands at
  \<open>x = 1.5\<close>, past its destination, where the clamped formula gives \<open>x = 1\<close>.
\<close>

theorem lerpPosition_overshoots:
  "vx (lerpPosition True 1 sampleBall origin) = 3/2
   \<and> vx (dest True sampleBall) = 1
   \<and> vx (spec_newPosition origin (dest True sampleBall) 1 (speed sampleBall)) = 1"
  by (simp add: lerpPosition_def lerp_def dest_def sampleBall_def origin_def
      spec_newPosition_def add_def sub_def multiplyScalar_def clamp_def)

text \<open>
  When \<open>delta * speed\<close> lies in the interval from 0 to 1, the lerp of lines 168-169
  does not increase the distance to the active destination.
\<close>

lemma lerp_step_distance:
  assumes "0 \<le> delta * speed d" and "delta * speed d \<le> 1"
  shows "distanceTo (lerpPosition (mode = FORMED) delta d p) (dest (mode = FORMED) d)
           \<le> distanceTo p (dest (mode = FORMED) d)"
proof -
  from assms have "\<bar>1 - delta * speed d\<bar> \<le> 1"
    by simp
  then have "\<bar>1 - delta * speed d\<bar> * distanceTo p (dest (mode = FORMED) d)
               \<le> 1 * distanceTo p (dest (mode = FORMED) d)"
    by (intro mult_right_mono distanceTo_nonneg)
  then show ?thesis
    by (simp add: lerpPosition_def distanceTo_lerp)
qed

text \<open>
  The wobble of lines 172-174 follows the lerp. It leaves \<open>x\<close> and \<open>z\<close> alone and
  moves \<open>y\<close> by at most 0.002, so it moves the position by at most 0.002; it does
  nothing outside the formed mode or at 0.5 or more from the target.
\<close>

lemma wobble_small:
  "vx (wobble isFormed time d p) = vx p \<and> vz (wobble isFormed time d p) = vz p
   \<and> \<bar>vy (wobble isFormed time d p) - vy p\<bar> \<le> 0.002"
proof -
  have "\<bar>sin (time * 2 + vx (chaosPos d))\<bar> \<le> 1"
    by simp
  then show ?thesis
    by (simp add: wobble_def abs_mult)
qed

lemma sqrt_shift:
  fixes a b c w :: real
  shows "sqrt (a\<^sup>2 + (b + w)\<^sup>2 + c\<^sup>2) \<le> sqrt (a\<^sup>2 + b\<^sup>2 + c\<^sup>2) + \<bar>w\<bar>"
proof (rule real_le_lsqrt)
  let ?S = "sqrt (a\<^sup>2 + b\<^sup>2 + c\<^sup>2)"
  show "0 \<le> ?S + \<bar>w\<bar>" by simp
  have "b\<^sup>2 \<le> a\<^sup>2 + b\<^sup>2 + c\<^sup>2" by simp
  then have "sqrt (b\<^sup>2) \<le> ?S" by (rule real_sqrt_le_mono)
  then have bS: "\<bar>b\<bar> \<le> ?S" by simp
  have "b * w \<le> \<bar>b\<bar> * \<bar>w\<bar>" by (simp add: abs_mult [symmetric])
  also have "\<dots> \<le> ?S * \<bar>w\<bar>" using bS by (intro mult_right_mono) simp_all
  finally have bw: "b * w \<le> ?S * \<bar>w\<bar>" .
  have S2: "?S\<^sup>2 = a\<^sup>2 + b\<^sup>2 + c\<^sup>2" by simp
  have "(?S + \<bar>w\<bar>)\<^sup>2 = ?S\<^sup>2 + 2 * (?S * \<bar>w\<bar>) + w\<^sup>2"
    by (simp add: power2_sum)
  also have "\<dots> = a\<^sup>2 + b\<^sup>2 + c\<^sup>2 + 2 * (?S * \<bar>w\<bar>) + w\<^sup>2" unfolding S2 ..
  finally have e: "(?S + \<bar>w\<bar>)\<^sup>2 = a\<^sup>2 + b\<^sup>2 + c\<^sup>2 + 2 * (?S * \<bar>w\<bar>) + w\<^sup>2" .
  have "a\<^sup>2 + (b + w)\<^sup>2 + c\<^sup>2 = a\<^sup>2 + b\<^sup>2 + c\<^sup>2 + 2 * (b * w) + w\<^sup>2"
    by (simp add: power2_sum)
  also have "\<dots> \<le> a\<^sup>2 + b\<^sup>2 + c\<^sup>2 + 2 * (?S * \<bar>w\<bar>) + w\<^sup>2" using bw by simp
  finally show "a\<^sup>2 + (b + w)\<^sup>2 + c\<^sup>2 \<le> (?S + \<bar>w\<bar>)\<^sup>2" unfolding e .
qed

lemma wobble_distance:
  "distanceTo (wobble isFormed time d p) v \<le> distanceTo p v + 0.002"
proof (cases "isFormed \<and> distanceTo p (targetPos d) < 0.5")
  case False
  then have "wobble isFormed time d p = p" by (auto simp add: wobble_def)
  then show ?thesis by simp
next
  case True
  define w where "w = sin (time * 2 + vx (chaosPos d)) * 0.002"
  have "\<bar>sin (time * 2 + vx (chaosPos d))\<bar> \<le> 1" by simp
  then have w: "\<bar>w\<bar> \<le> 0.002" by (simp add: w_def abs_mult)
  have "distanceTo (wobble isFormed time d p) v
      = sqrt ((vx p - vx v)\<^sup>2 + ((vy p - vy v) + w)\<^sup>2 + (vz p - vz v)\<^sup>2)"
    using True by (simp add: wobble_def distanceTo_def w_def algebra_simps)
  also have "\<dots> \<le> sqrt ((vx p - vx v)\<^sup>2 + (vy p - vy v)\<^sup>2 + (vz p - vz v)\<^sup>2) + \<bar>w\<bar>"
    by (rule sqrt_shift)
  finally show ?thesis using w by (simp add: distanceTo_def)
qed

lemma wobble_inactive:
  "\<not> isFormed \<or> 0.5 \<le> distanceTo p (targetPos d) \<Longrightarrow> wobble isFormed time d p = p"
  by (auto simp add: wobble_def)

text \<open>The position written for an instance is the lerp of the position read, followed by the wobble.\<close>

lemma updateInstance_position:
  "position (updateInstance L f t dl d dummy) = wobble f t d (lerpPosition f dl d (position dummy))"
  by (simp add: updateInstance_def Let_def)

text \<open>
  C2, as the code has it. When \<open>delta * speed\<close> lies in the interval from 0 to 1, the
  distance to the active destination (\<open>targetPos\<close> in mode \<open>FORMED\<close>, \<open>chaosPos\<close>
  otherwise) after the lerp of lines 168-169 is at most the distance before. The position
  the frame writes back is that of the lerp outside the formed mode, and in the formed
  mode when the lerp ends at 0.5 or more from the target: there the distance of the
  written position is at most the distance before. In every case the distance of the
  written position is at most the distance before plus 0.002, the amplitude of the wobble.
\<close>

theorem updateInstance_distance:
  assumes "0 \<le> delta * speed d" and "delta * speed d \<le> 1"
  shows "distanceTo (lerpPosition (mode = FORMED) delta d (position dummy)) (dest (mode = FORMED) d)
           \<le> distanceTo (position dummy) (dest (mode = FORMED) d)
   \<and> (mode \<noteq> FORMED
        \<or> 0.5 \<le> distanceTo (lerpPosition (mode = FORMED) delta d (position dummy)) (targetPos d)
      \<longrightarrow> distanceTo (position (updateInstance L (mode = FORMED) time delta d dummy))
               (dest (mode = FORMED) d)
             \<le> distanceTo (position dummy) (dest (mode = FORMED) d))
   \<and> distanceTo (position (updateInstance L (mode = FORMED) time delta d dummy))
         (dest (mode = FORMED) d)
       \<le> distanceTo (position dummy) (dest (mode = FORMED) d) + 0.002"
proof -
  let ?p = "position dummy" and ?f = "mode = FORMED"
  let ?q = "lerpPosition ?f delta d ?p"
  have l: "distanceTo ?q (dest ?f d) \<le> distanceTo ?p (dest ?f d)"
    using assms by (rule lerp_step_distance)
  have pos: "position (updateInstance L ?f time delta d dummy) = wobble ?f time d ?q"
    by (rule updateInstance_position)
  have a: "distanceTo (wobble ?f time d ?q) (dest ?f d) \<le> distanceTo ?p (dest ?f d)"
    if "mode \<noteq> FORMED \<or> 0.5 \<le> distanceTo ?q (targetPos d)"
  proof -
    from that have "wobble ?f time d ?q = ?q" by (intro wobble_inactive) simp
    with l show ?thesis by simp
  qed
  have "distanceTo (wobble ?f time d ?q) (dest ?f d) \<le> distanceTo ?q (dest ?f d) + 0.002"
    by (rule wobble_distance)
  with l have b: "distanceTo (wobble ?f time d ?q) (dest ?f d) \<le> distanceTo ?p (dest ?f d) + 0.002"
    by simp
  from l a b show ?thesis unfolding pos by blast
qed

text \<open>
  C2 in the formed mode, from a distance of 4: the lerp ends at distance 1, the wobble
  does not apply, and the written position is at distance 1.
\<close>

theorem updateInstance_distance_witness:
  "distanceTo (position (updateInstance sampleLookAt (FORMED = FORMED) 0 (1/2) sampleBall sampleFar))
       (dest (FORMED = FORMED) sampleBall) = 1
   \<and> distanceTo (position sampleFar) (dest (FORMED = FORMED) sampleBall) = 4"
  using updateInstance_distance [of "1/2" sampleBall FORMED sampleFar sampleLookAt 0]
  by (simp add: sampleBall_def sampleFar_def dest_def updateInstance_def lerpPosition_def lerp_def
      wobble_def distanceTo_def Let_def)

text \<open>
  C2 as the specification states it fails for the position the frame writes. An ornament
  that sits on its target in the formed mode, at time \<open>pi / 4\<close> with
  \<open>delta * speed = 3/4\<close>, is left on the target by the lerp and then lifted by the
  wobble: its distance to the destination goes from 0 to 0.002.
\<close>

theorem wobble_increases_distance:
  "0 \<le> (1/2) * speed sampleAxisBall \<and> (1/2) * speed sampleAxisBall \<le> 1
   \<and> distanceTo (position sampleAtTarget) (dest (FORMED = FORMED) sampleAxisBall) = 0
   \<and> distanceTo (position (updateInstance sampleLookAt (FORMED = FORMED) (pi / 4) (1/2)
         sampleAxisBall sampleAtTarget)) (dest (FORMED = FORMED) sampleAxisBall) = 1/500"
  by (simp add: sampleAxisBall_def sampleAtTarget_def dest_def updateInstance_def lerpPosition_def
      lerp_def wobble_def distanceTo_def Let_def)

section \<open>The transform buffer of a group\<close>

lemma forEach_data_flag:
  "snd (forEach_data L f t dl ds i (ms, nu)) = (nu \<or> ds \<noteq> [])"
  by (induction ds arbitrary: i ms nu) simp_all

lemma forEach_data_length:
  "length (fst (forEach_data L f t dl ds i (ms, nu))) = length ms"
  by (induction ds arbitrary: i ms nu) simp_all

text \<open>The loop writes, at every index of the group, the update of what it read there.\<close>

lemma forEach_data_nth_aux:
  "j + length ds \<le> length ms \<Longrightarrow>
   (\<forall>k < length ds. fst (forEach_data L f t dl ds j (ms, nu)) ! (j + k)
        = updateInstance L f t dl (ds ! k) (ms ! (j + k)))
   \<and> (\<forall>i < j. fst (forEach_data L f t dl ds j (ms, nu)) ! i = ms ! i)"
proof (induction ds arbitrary: j ms nu)
  case Nil
  show ?case by simp
next
  case (Cons d ds)
  let ?ms = "ms[j := updateInstance L f t dl d (ms ! j)]"
  have len: "Suc j + length ds \<le> length ?ms" using Cons.prems by simp
  note ih = Cons.IH [OF len, of True]
  show ?case
  proof (intro conjI allI impI)
    fix k assume k: "k < length (d # ds)"
    show "fst (forEach_data L f t dl (d # ds) j (ms, nu)) ! (j + k)
        = updateInstance L f t dl ((d # ds) ! k) (ms ! (j + k))"
    proof (cases k)
      case 0
      have "fst (forEach_data L f t dl ds (Suc j) (?ms, True)) ! j = ?ms ! j"
        using ih by simp
      with 0 Cons.prems show ?thesis by simp
    next
      case (Suc k')
      then have "k' < length ds" using k by simp
      then have "fst (forEach_data L f t dl ds (Suc j) (?ms, True)) ! (Suc j + k')
          = updateInstance L f t dl (ds ! k') (?ms ! (Suc j + k'))"
        using ih by blast
      with Suc show ?thesis by simp
    qed
  next
    fix i assume i: "i < j"
    then have "fst (forEach_data L f t dl ds (Suc j) (?ms, True)) ! i = ?ms ! i"
      using ih by simp
    with i show "fst (forEach_data L f t dl (d # ds) j (ms, nu)) ! i = ms ! i" by simp
  qed
qed

lemma forEach_data_nth:
  assumes "length data \<le> length ms" and "i < length data"
  shows "fst (forEach_data L f t dl data 0 (ms, nu)) ! i = updateInstance L f t dl (data ! i) (ms ! i)"
  using forEach_data_nth_aux [of 0 data ms L f t dl nu] assms by simp

lemma updateMesh_None: "updateMesh L f t dl None data = None"
  by (simp add: updateMesh_def)

lemma updateMesh_Nil: "updateMesh L f t dl (Some m) [] = Some m"
  by (simp add: updateMesh_def)

lemma updateMesh_nonempty:
  assumes "data \<noteq> []"
  shows "updateMesh L f t dl (Some m) data
     = Some \<lparr> instanceMatrix = fst (forEach_data L f t dl data 0 (instanceMatrix m, False)),
              version = version m + 1 \<rparr>"
proof -
  obtain ms nu where r: "forEach_data L f t dl data 0 (instanceMatrix m, False) = (ms, nu)"
    by (cases "forEach_data L f t dl data 0 (instanceMatrix m, False)")
  have "nu = (False \<or> data \<noteq> [])"
    using forEach_data_flag [of L f t dl data 0 "instanceMatrix m" False] r by simp
  with assms have "nu"
    by simp
  with r show ?thesis
    by (simp add: updateMesh_def set_needsUpdate_def)
qed

text \<open>
  C9: a group whose handle is missing stays missing and a group with no instances is
  returned as it was (buffer and version untouched); a group with instances has its
  version raised by exactly one, however many instances it has; and the frame gives each
  group the result of its own \<open>updateMesh\<close>, whatever the state of the other two.
\<close>

theorem updateMesh_dirty_once:
  "updateMesh L f t dl None data = None
   \<and> updateMesh L f t dl (Some m) [] = Some m
   \<and> (data \<noteq> [] \<longrightarrow>
        (\<exists>ms. length ms = length (instanceMatrix m)
            \<and> updateMesh L f t dl (Some m) data
                = Some \<lparr> instanceMatrix = ms, version = version m + 1 \<rparr>))
   \<and> ballsRef (useFrame_Ornaments L mode ds t dl refs)
        = updateMesh L (mode = FORMED) t dl (ballsRef refs) (ballsData ds)
   \<and> giftsRef (useFrame_Ornaments L mode ds t dl refs)
        = updateMesh L (mode = FORMED) t dl (giftsRef refs) (giftsData ds)
   \<and> lightsRef (useFrame_Ornaments L mode ds t dl refs)
        = updateMesh L (mode = FORMED) t dl (lightsRef refs) (lightsData ds)"
proof -
  have "data \<noteq> [] \<longrightarrow>
        (\<exists>ms. length ms = length (instanceMatrix m)
            \<and> updateMesh L f t dl (Some m) data
                = Some \<lparr> instanceMatrix = ms, version = version m + 1 \<rparr>)"
    using updateMesh_nonempty [of data L f t dl m]
      forEach_data_length [of L f t dl data 0 "instanceMatrix m" False]
    by blast
  then show ?thesis
    by (simp add: updateMesh_None updateMesh_Nil useFrame_Ornaments_def Let_def)
qed

text \<open>
  C9 on a frame with two balls, no gift and a lights group that is not attached: the
  balls' version goes from 0 to 1 (not 2), the gifts' version stays 0.
\<close>

theorem updateMesh_dirty_once_witness:
  "map_option version
     (updateMesh sampleLookAt True 0 (1/2) (Some sampleMesh) [sampleBall, sampleBall]) = Some 1
   \<and> map_option version
       (giftsRef (useFrame_Ornaments sampleLookAt FORMED
          \<lparr> ballsData = [sampleBall, sampleBall], giftsData = [], lightsData = [sampleBall] \<rparr>
          0 (1/2)
          \<lparr> ballsRef = Some sampleMesh, giftsRef = Some sampleMesh, lightsRef = None \<rparr>))
       = Some 0"
  using updateMesh_dirty_once [of sampleLookAt True 0 "1/2" "[sampleBall, sampleBall]" sampleMesh
      FORMED "\<lparr> ballsData = [sampleBall, sampleBall], giftsData = [], lightsData = [sampleBall] \<rparr>"
      "\<lparr> ballsRef = Some sampleMesh, giftsRef = Some sampleMesh, lightsRef = None \<rparr>"]
  by (auto simp: sampleMesh_def)

section \<open>The dataset generator\<close>

text \<open>A pass of the loop makes between 10 and 12 draws.\<close>

lemma makeInstance_cursor:
  "snd (makeInstance rs k) \<le> k + 12 \<and> k + 10 \<le> snd (makeInstance rs k)"
  by (simp add: makeInstance_def Math_random_def Let_def)

text \<open>The record of a pass depends on the 12 draws from the cursor on, and on nothing else.\<close>

lemma makeInstance_cong:
  assumes "\<forall>i. k \<le> i \<and> i < k + 12 \<longrightarrow> r1 i = r2 i"
  shows "makeInstance r1 k = makeInstance r2 k"
proof -
  have e: "r1 i = r2 i" if "k \<le> i" "i < k + 12" for i
    using assms that by simp
  have "r1 k = r2 k"
    by (rule e) simp_all
  moreover have "r1 (Suc k) = r2 (Suc k)"
    by (rule e) simp_all
  moreover have "r1 (Suc (Suc k)) = r2 (Suc (Suc k))"
    by (rule e) simp_all
  moreover have "r1 (Suc (Suc (Suc k))) = r2 (Suc (Suc (Suc k)))"
    by (rule e) simp_all
  moreover have "r1 (Suc (Suc (Suc (Suc k)))) = r2 (Suc (Suc (Suc (Suc k))))"
    by (rule e) simp_all
  moreover have "r1 (Suc (Suc (Suc (Suc (Suc k))))) = r2 (Suc (Suc (Suc (Suc (Suc k)))))"
    by (rule e) simp_all
  moreover have "r1 (Suc (Suc (Suc (Suc (Suc (Suc k))))))
      = r2 (Suc (Suc (Suc (Suc (Suc (Suc k))))))"
    by (rule e) simp_all
  moreover have "r1 (Suc (Suc (Suc (Suc (Suc (Suc (Suc k)))))))
      = r2 (Suc (Suc (Suc (Suc (Suc (Suc (Suc k)))))))"
    by (rule e) simp_all
  moreover have "r1 (Suc (Suc (Suc (Suc (Suc (Suc (Suc (Suc k))))))))
      = r2 (Suc (Suc (Suc (Suc (Suc (Suc (Suc (Suc k))))))))"
    by (rule e) simp_all
  moreover have "r1 (Suc (Suc (Suc (Suc (Suc (Suc (Suc (Suc (Suc k)))))))))
      = r2 (Suc (Suc (Suc (Suc (Suc (Suc (Suc (Suc (Suc k)))))))))"
    by (rule e) simp_all
  moreover have "r1 (Suc (Suc (Suc (Suc (Suc (Suc (Suc (Suc (Suc (Suc k))))))))))
      = r2 (Suc (Suc (Suc (Suc (Suc (Suc (Suc (Suc (Suc (Suc k))))))))))"
    by (rule e) simp_all
  moreover have "r1 (Suc (Suc (Suc (Suc (Suc (Suc (Suc (Suc (Suc (Suc (Suc k)))))))))))
      = r2 (Suc (Suc (Suc (Suc (Suc (Suc (Suc (Suc (Suc (Suc (Suc k)))))))))))"
    by (rule e) simp_all
  ultimately show ?thesis
    by (simp add: makeInstance_def Math_random_def Let_def)
qed

lemma generate_loop_cong:
  "\<forall>i. k \<le> i \<and> i < k + 12 * n \<longrightarrow> r1 i = r2 i
     \<Longrightarrow> generate_loop r1 n k acc = generate_loop r2 n k acc"
proof (induction n arbitrary: k acc)
  case 0
  show ?case by simp
next
  case (Suc n)
  have m: "makeInstance r1 k = makeInstance r2 k"
    using Suc.prems by (intro makeInstance_cong) simp
  obtain d k' where dk: "makeInstance r2 k = (d, k')"
    by (cases "makeInstance r2 k")
  have "k \<le> k'" "k' \<le> k + 12"
    using makeInstance_cursor [of r2 k] dk by simp_all
  then have "\<forall>i. k' \<le> i \<and> i < k' + 12 * n \<longrightarrow> r1 i = r2 i"
    using Suc.prems by simp
  then have "generate_loop r1 n k' (push d acc) = generate_loop r2 n k' (push d acc)"
    by (rule Suc.IH)
  with m dk show ?case
    by simp
qed

text \<open>
  C7: the dataset is a function of the random draws and of the count alone. Two runs with
  the same count whose random sources agree on the first \<open>12 * count\<close> draws (all that
  a run can consume) return the same dataset: the same three arrays, record by record.
  Two runs on the same source are the special case.
\<close>

theorem generate_deterministic:
  "\<forall>i < 12 * count. r1 i = r2 i \<Longrightarrow> generate r1 count = generate r2 count"
  unfolding generate_def by (rule generate_loop_cong) simp

text \<open>C7 for one instance, on two sources that differ only after the twelfth draw.\<close>

theorem generate_deterministic_witness:
  "generate (\<lambda>i. 1/2) 1 = generate (\<lambda>i. if i < 12 then 1/2 else 0) 1"
  using generate_deterministic [of 1 "\<lambda>i. 1/2" "\<lambda>i. if i < 12 then 1/2 else 0"]
  by simp

lemma ornamentType_thresholds:
  "ornamentType rnd = (if rnd \<le> 0.8 then BallT else if rnd \<le> 0.9 then GiftT else LightT)"
  by (simp add: ornamentType_def)

lemma makeInstance_type: "ornType (fst (makeInstance rs k)) = ornamentType (rs k)"
  by (simp add: makeInstance_def Math_random_def Let_def)

lemma total_push: "total (push d acc) = Suc (total acc)"
  by (simp add: total_def push_def)

lemma partitioned_push: "partitioned acc \<Longrightarrow> partitioned (push d acc)"
  by (cases "ornType d") (auto simp add: partitioned_def push_def)

lemma generate_loop_total: "total (generate_loop rs n k acc) = n + total acc"
  by (induction n arbitrary: k acc) (simp_all add: total_push split: prod.splits)

lemma generate_loop_partitioned:
  "partitioned acc \<Longrightarrow> partitioned (generate_loop rs n k acc)"
  by (induction n arbitrary: k acc) (simp_all add: partitioned_push split: prod.splits)

text \<open>
  C8: the type is \<open>ball\<close> for a draw of at most 0.8, \<open>gift\<close> for a draw above 0.8
  and at most 0.9, \<open>light\<close> for a draw above 0.9; the record of a pass gets the type
  of the pass's first draw; the three arrays together hold exactly \<open>N\<close> records; and
  each array holds records of its own type only.
\<close>

theorem generate_categories:
  "ornamentType rnd = (if rnd \<le> 0.8 then BallT else if rnd \<le> 0.9 then GiftT else LightT)
   \<and> ornType (fst (makeInstance rs k)) = ornamentType (rs k)
   \<and> length (ballsData (generate rs N)) + length (giftsData (generate rs N))
       + length (lightsData (generate rs N)) = N
   \<and> (\<forall>d \<in> set (ballsData (generate rs N)). ornType d = BallT)
   \<and> (\<forall>d \<in> set (giftsData (generate rs N)). ornType d = GiftT)
   \<and> (\<forall>d \<in> set (lightsData (generate rs N)). ornType d = LightT)"
proof -
  let ?e = "\<lparr> ballsData = [], giftsData = [], lightsData = [] \<rparr>"
  have "total (generate_loop rs N 0 ?e) = N + total ?e"
    by (rule generate_loop_total)
  then have t: "total (generate rs N) = N"
    by (simp add: generate_def total_def)
  have "partitioned ?e"
    by (simp add: partitioned_def)
  then have "partitioned (generate rs N)"
    unfolding generate_def by (rule generate_loop_partitioned)
  with t show ?thesis
    by (simp add: ornamentType_thresholds makeInstance_type total_def partitioned_def)
qed

text \<open>
  C8 on three instances whose first draws are 0.85, 0.95 and 0.5: one gift, one light
  and one ball.
\<close>

theorem generate_categories_witness:
  "map ornType (giftsData (generate sampleSource 3)) = [GiftT]
   \<and> map ornType (lightsData (generate sampleSource 3)) = [LightT]
   \<and> map ornType (ballsData (generate sampleSource 3)) = [BallT]"
  using generate_categories [of "0.85" sampleSource 0 3]
  by (simp add: generate_def makeInstance_def Math_random_def Let_def push_def ornamentType_def
      sampleSource_def eval_nat_numeral)

text \<open>The speed of a record is 0.5 plus 1.5 times one draw: the eighth of a light, the tenth otherwise.\<close>

lemma makeInstance_speed_draw:
  "speed (fst (makeInstance rs k))
     = 0.5 + rs (if ornamentType (rs k) = LightT then k + 7 else k + 9) * 1.5"
  by (simp add: makeInstance_def Math_random_def Let_def eval_nat_numeral)

lemma makeInstance_speed:
  assumes "\<forall>i. 0 \<le> rs i \<and> rs i < 1"
  shows "0.5 \<le> speed (fst (makeInstance rs k)) \<and> speed (fst (makeInstance rs k)) < 2"
proof -
  define j where "j = (if ornamentType (rs k) = LightT then k + 7 else k + 9)"
  have "0 \<le> rs j" "rs j < 1"
    using assms by simp_all
  then have "0.5 \<le> 0.5 + rs j * 1.5 \<and> 0.5 + rs j * 1.5 < 2"
    by simp
  then show ?thesis
    unfolding makeInstance_speed_draw j_def .
qed

lemma speeds_in_range_push:
  "speeds_in_range acc \<Longrightarrow> 0.5 \<le> speed d \<and> speed d < 2 \<Longrightarrow> speeds_in_range (push d acc)"
  by (auto simp add: speeds_in_range_def push_def)

lemma generate_loop_speeds:
  assumes "\<forall>i. 0 \<le> rs i \<and> rs i < 1"
  shows "speeds_in_range acc \<Longrightarrow> speeds_in_range (generate_loop rs n k acc)"
proof (induction n arbitrary: k acc)
  case 0
  then show ?case by simp
next
  case (Suc n)
  obtain d k' where dk: "makeInstance rs k = (d, k')"
    by (cases "makeInstance rs k")
  then have "0.5 \<le> speed d \<and> speed d < 2"
    using makeInstance_speed [OF assms, of k] by simp
  then have "speeds_in_range (push d acc)"
    using Suc.prems by (intro speeds_in_range_push)
  then have "speeds_in_range (generate_loop rs n k' (push d acc))"
    by (rule Suc.IH)
  with dk show ?case
    by simp
qed

text \<open>
  C10: when every draw of the random source lies in the interval from 0 (included) to 1
  (excluded), as \<^verbatim>\<open>Math.random()\<close> promises, every record of the generated dataset
  has a speed of at least 0.5 and less than 2; so \<open>delta * speed \<le> 1\<close> for every frame
  delta of at most half a second.
\<close>

theorem generate_speed_range:
  assumes "\<forall>i. 0 \<le> rs i \<and> rs i < 1"
    and "d \<in> set (ballsData (generate rs count)) \<union> set (giftsData (generate rs count))
           \<union> set (lightsData (generate rs count))"
  shows "0.5 \<le> speed d \<and> speed d < 2 \<and> (delta \<le> 0.5 \<longrightarrow> delta * speed d \<le> 1)"
proof -
  have "speeds_in_range \<lparr> ballsData = [], giftsData = [], lightsData = [] \<rparr>"
    by (simp add: speeds_in_range_def)
  then have "speeds_in_range (generate rs count)"
    unfolding generate_def by (rule generate_loop_speeds [OF assms(1)])
  with assms(2) have s: "0.5 \<le> speed d" "speed d < 2"
    by (auto simp add: speeds_in_range_def)
  have "delta * speed d \<le> 1" if "delta \<le> 0.5"
  proof -
    have "delta * speed d \<le> 0.5 * speed d"
      using that s by (intro mult_right_mono) simp_all
    also have "\<dots> \<le> 1"
      using s by simp
    finally show ?thesis .
  qed
  with s show ?thesis
    by simp
qed

text \<open>C10 on the source that always draws one half: the speed is 1.25.\<close>

theorem generate_speed_range_witness:
  "speed (hd (ballsData (generate (\<lambda>i. 1/2) 1))) = 5/4
   \<and> (1/2) * speed (hd (ballsData (generate (\<lambda>i. 1/2) 1))) \<le> 1"
  using generate_speed_range [of "\<lambda>i. 1/2" "hd (ballsData (generate (\<lambda>i. 1/2) 1))" 1 "1/2"]
  by (simp add: generate_def makeInstance_def Math_random_def Let_def push_def ornamentType_def)

section \<open>The camera callback\<close>

lemma polar_order: "minPolar < maxPolar"
  using pi_gt_zero by (simp add: minPolar_def maxPolar_def field_simps)

lemma clampedY_range: "0 \<le> clampedY y \<and> clampedY y \<le> 1"
  by (simp add: clampedY_def)

lemma targetPolar_range: "minPolar \<le> targetPolar y \<and> targetPolar y \<le> maxPolar"
proof -
  have d: "0 \<le> maxPolar - minPolar"
    using polar_order by simp
  have c: "0 \<le> clampedY y" "clampedY y \<le> 1"
    using clampedY_range by simp_all
  have "0 \<le> clampedY y * (maxPolar - minPolar)"
    using c d by simp
  moreover have "clampedY y * (maxPolar - minPolar) \<le> 1 * (maxPolar - minPolar)"
    using c d by (intro mult_right_mono) simp_all
  ultimately show ?thesis
    by (simp add: targetPolar_def)
qed

text \<open>
  C3, as the code has it. Of the three inputs only \<open>y\<close> is clamped: a \<open>y\<close> below
  0.2 acts as 0.2 and a \<open>y\<close> above 0.7 as 0.7. The target azimuth is
  \<open>(x - 0.5) * 3 * pi\<close> for every \<open>x\<close>, and both new angles are the current angle
  plus the difference times \<open>8 * delta\<close> for every \<open>delta\<close>, negative or not.
\<close>

theorem camera_clamps_only_y:
  "targetPolar y = targetPolar (max 0.2 (min 0.7 y))
   \<and> targetAzimuth x = (x - 1/2) * (3 * pi)
   \<and> newAzimuth x curA delta = curA + azimuthDiff (targetAzimuth x) curA * (8 * delta)
   \<and> newPolar y curP delta = curP + (targetPolar y - curP) * (8 * delta)"
  by (simp add: targetPolar_def clampedY_def adjustedY_def targetAzimuth_def newAzimuth_def
      newPolar_def lerpSpeed_def max_def min_def)

text \<open>
  C3 as the specification states it fails. With \<open>x = 2\<close> the new azimuth is
  \<open>5 * pi / 2\<close>, neither the \<open>- pi / 2\<close> of \<open>x\<close> clamped to 1 nor the unchanged 0
  of an ignored sample. With \<open>delta = - 1\<close> the new polar angle is
  \<open>- 79 * pi / 36\<close>, below \<open>minPolar\<close>, where a delta clamped to 0 or ignored
  leaves \<open>pi / 4\<close>.
\<close>

theorem camera_propagates_x_and_delta:
  "newAzimuth 2 0 (1/8) = 5 * pi / 2
   \<and> newAzimuth 1 0 (1/8) = - (pi / 2)
   \<and> newAzimuth 2 0 0 = 0
   \<and> newPolar 1 (pi / 4) (- 1) = - (79 * pi / 36)
   \<and> newPolar 1 (pi / 4) 0 = pi / 4
   \<and> newPolar 1 (pi / 4) (- 1) < minPolar"
  using pi_gt_zero
  by (simp add: newAzimuth_def azimuthDiff_def targetAzimuth_def Let_def lerpSpeed_def
      newPolar_def targetPolar_def clampedY_def adjustedY_def minPolar_def maxPolar_def
      field_simps)

text \<open>
  For a hand position inside the unit interval and a current azimuth between \<open>- pi\<close>
  and \<open>pi\<close> the difference is within the \<open>3 * pi\<close> that one wrap handles.
\<close>

lemma azimuth_design_range:
  assumes "0 \<le> x" and "x \<le> 1" and "- pi \<le> cur" and "cur \<le> pi"
  shows "\<bar>targetAzimuth x - cur\<bar> \<le> 3 * pi"
proof -
  have e: "targetAzimuth x - cur = 3 * (x * pi) - 3 * pi / 2 - cur"
    by (simp add: targetAzimuth_def algebra_simps)
  have b: "0 \<le> x * pi"
    using assms by simp
  have c: "x * pi \<le> 1 * pi"
    using assms by (intro mult_right_mono) simp_all
  show ?thesis
    unfolding e using assms b c by linarith
qed

text \<open>
  C4, as the code has it. The code wraps once: when the difference of target and current
  azimuth is at most \<open>3 * pi\<close> in absolute value, the normalised difference lies in the
  closed interval from \<open>- pi\<close> to \<open>pi\<close> and is the difference itself, minus or plus
  one full turn. Every hand position in the unit interval with a current azimuth between
  \<open>- pi\<close> and \<open>pi\<close> gives such a difference. For target \<open>pi - 0.01\<close> and current
  \<open>- pi + 0.01\<close> the result is \<open>- 0.02\<close>: the rotation crosses the wrap boundary.
\<close>

theorem azimuthDiff_short_way:
  "(\<bar>tgt - cur\<bar> \<le> 3 * pi \<longrightarrow>
      - pi \<le> azimuthDiff tgt cur \<and> azimuthDiff tgt cur \<le> pi
      \<and> azimuthDiff tgt cur
          = (tgt - cur) + (if tgt - cur > pi then - (2 * pi)
                           else if tgt - cur < - pi then 2 * pi else 0))
   \<and> (0 \<le> x \<and> x \<le> 1 \<and> - pi \<le> cur \<and> cur \<le> pi \<longrightarrow> \<bar>targetAzimuth x - cur\<bar> \<le> 3 * pi)
   \<and> azimuthDiff (pi - 0.01) (- pi + 0.01) = - 0.02"
proof -
  have "azimuthDiff (pi - 0.01) (- pi + 0.01) = - 0.02"
    using pi_ge_two by (simp add: azimuthDiff_def Let_def)
  moreover have "\<bar>tgt - cur\<bar> \<le> 3 * pi \<longrightarrow>
      - pi \<le> azimuthDiff tgt cur \<and> azimuthDiff tgt cur \<le> pi
      \<and> azimuthDiff tgt cur
          = (tgt - cur) + (if tgt - cur > pi then - (2 * pi)
                           else if tgt - cur < - pi then 2 * pi else 0)"
    using pi_gt_zero by (auto simp add: azimuthDiff_def Let_def)
  moreover have "0 \<le> x \<and> x \<le> 1 \<and> - pi \<le> cur \<and> cur \<le> pi \<longrightarrow> \<bar>targetAzimuth x - cur\<bar> \<le> 3 * pi"
    using azimuth_design_range [of x cur] by blast
  ultimately show ?thesis
    by blast
qed

text \<open>C4 for the hand at the right edge and the camera at \<open>- pi\<close>: a quarter turn.\<close>

theorem azimuthDiff_short_way_witness:
  "\<bar>targetAzimuth 1 - (- pi)\<bar> \<le> 3 * pi \<and> azimuthDiff (targetAzimuth 1) (- pi) = pi / 2"
  using azimuthDiff_short_way [of "targetAzimuth 1" "- pi" 1] pi_gt_zero
  by (simp add: targetAzimuth_def)

text \<open>
  C4 as the specification states it fails on two counts. For the hand in the middle
  (target 0) and the camera at \<open>pi\<close> the difference \<open>- pi\<close> is kept, and it is not
  in the half-open interval; for a target of \<open>4 * pi\<close> and the camera at 0 the single
  wrap leaves \<open>2 * pi\<close>.
\<close>

theorem azimuthDiff_not_half_open:
  "azimuthDiff (targetAzimuth (1/2)) pi = - pi
   \<and> \<not> (- pi < azimuthDiff (targetAzimuth (1/2)) pi)
   \<and> azimuthDiff (4 * pi) 0 = 2 * pi
   \<and> \<not> (azimuthDiff (4 * pi) 0 \<le> pi)"
  using pi_gt_zero by (simp add: azimuthDiff_def targetAzimuth_def Let_def)

text \<open>
  The target polar angle lies between \<open>minPolar\<close> and \<open>maxPolar\<close> for every \<open>y\<close>.
  The interpolated angle of line 58 lies between them when the current polar angle does
  and \<open>delta * lerpSpeed\<close> lies between 0 and 1.
\<close>

lemma newPolar_range:
  "minPolar \<le> targetPolar y \<and> targetPolar y \<le> maxPolar
   \<and> (minPolar \<le> cur \<and> cur \<le> maxPolar \<and> 0 \<le> delta * lerpSpeed \<and> delta * lerpSpeed \<le> 1
        \<longrightarrow> minPolar \<le> newPolar y cur delta \<and> newPolar y cur delta \<le> maxPolar)"
proof -
  have t: "minPolar \<le> targetPolar y" "targetPolar y \<le> maxPolar"
    using targetPolar_range by simp_all
  have "minPolar \<le> newPolar y cur delta \<and> newPolar y cur delta \<le> maxPolar"
    if a: "minPolar \<le> cur" "cur \<le> maxPolar" "0 \<le> delta * lerpSpeed" "delta * lerpSpeed \<le> 1"
  proof -
    define s where "s = delta * lerpSpeed"
    have n: "newPolar y cur delta = (1 - s) * cur + s * targetPolar y"
      by (simp add: newPolar_def s_def algebra_simps)
    have s: "0 \<le> s" "0 \<le> 1 - s"
      using a by (simp_all add: s_def)
    have "(1 - s) * minPolar + s * minPolar \<le> (1 - s) * cur + s * targetPolar y"
      using s a t by (intro add_mono mult_left_mono) simp_all
    moreover have "(1 - s) * cur + s * targetPolar y \<le> (1 - s) * maxPolar + s * maxPolar"
      using s a t by (intro add_mono mult_left_mono) simp_all
    ultimately show ?thesis
      unfolding n by (simp add: algebra_simps)
  qed
  with t show ?thesis
    by blast
qed

text \<open>
  On a longer frame the interpolated angle of line 58 can leave the interval: from
  \<open>pi / 4\<close>, with \<open>y = 1\<close> and a frame of a fifth of a second, it is
  \<open>133 * pi / 180\<close>. The callback hands the camera to \<open>controls.update()\<close>, which
  brings the polar angle back inside the limits.
\<close>

lemma newPolar_exceeds_maxPolar:
  "minPolar \<le> pi / 4 \<and> pi / 4 \<le> maxPolar
   \<and> newPolar 1 (pi / 4) (1/5) = 133 * pi / 180
   \<and> maxPolar < newPolar 1 (pi / 4) (1/5)"
  using pi_gt_zero
  by (simp add: newPolar_def targetPolar_def clampedY_def adjustedY_def minPolar_def
      maxPolar_def lerpSpeed_def field_simps)

text \<open>The limits of the orbit primitive leave the polar limits untouched by the pole guard.\<close>

lemma EPS_bounds: "EPS \<le> minPolarAngle \<and> maxPolarAngle \<le> pi - EPS"
proof -
  have "EPS \<le> 2 / 4" by (simp add: EPS_def)
  also have "\<dots> \<le> pi / 4" using pi_ge_two by simp
  finally have a: "EPS \<le> minPolarAngle" by (simp add: minPolarAngle_def)
  have "EPS \<le> 2 * (4 / 9)" by (simp add: EPS_def)
  also have "\<dots> \<le> pi * (4 / 9)" using pi_ge_two by (intro mult_right_mono) simp_all
  finally have "pi * (5 / 9) \<le> pi - EPS" by (simp add: algebra_simps)
  then have "maxPolarAngle \<le> pi - EPS" by (simp add: maxPolarAngle_def)
  with a show ?thesis by simp
qed

lemma OrbitControls_update_polar:
  "polarAngle (OrbitControls_update sd c)
     = max minPolarAngle (min maxPolarAngle
         ((let offset = sub (objectPosition c) (target c);
               radius = sqrt ((vx offset)\<^sup>2 + (vy offset)\<^sup>2 + (vz offset)\<^sup>2)
           in if radius = 0 then 0 else arccos (clamp (vy offset / radius) (- 1) 1))
          + snd sd * dampingFactor))"
proof -
  have o: "minPolarAngle \<le> maxPolarAngle"
    using polar_order by (simp add: minPolar_def maxPolar_def minPolarAngle_def maxPolarAngle_def)
  have "max EPS (min (pi - EPS) (max minPolarAngle (min maxPolarAngle v)))
          = max minPolarAngle (min maxPolarAngle v)" for v
    using EPS_bounds o by (simp add: max_def min_def)
  then show ?thesis
    by (simp add: OrbitControls_update_def Let_def)
qed

lemma OrbitControls_update_polar_range:
  "minPolar \<le> polarAngle (OrbitControls_update sd c) \<and> polarAngle (OrbitControls_update sd c) \<le> maxPolar"
proof -
  have o: "minPolarAngle \<le> maxPolarAngle"
    using polar_order by (simp add: minPolar_def maxPolar_def minPolarAngle_def maxPolarAngle_def)
  then show ?thesis
    unfolding OrbitControls_update_polar
    by (simp add: minPolar_def maxPolar_def minPolarAngle_def maxPolarAngle_def max_def min_def)
qed


lemma spherical_radius:
  fixes r :: real
  assumes "0 \<le> r"
  shows "sqrt ((r * sin p * sin a)\<^sup>2 + (r * cos p)\<^sup>2 + (r * sin p * cos a)\<^sup>2) = r"
proof -
  have "(r * sin p * sin a)\<^sup>2 + (r * cos p)\<^sup>2 + (r * sin p * cos a)\<^sup>2 = r\<^sup>2"
    by (simp add: power_mult_distrib sin_squared_eq algebra_simps)
  then show ?thesis
    using assms by simp
qed

text \<open>
  With the camera away from the target, no pending pointer rotation of the polar angle
  and the interpolated angle of line 58 between 0 and \<open>pi\<close>, the polar angle after the
  frame is that interpolated angle clamped to the polar limits.
\<close>

lemma useFrame_Experience_polar:
  assumes "detected handPosition" and "0 < getDistance controls"
    and "0 \<le> newPolar (handY handPosition) (polarAngle controls) delta"
    and "newPolar (handY handPosition) (polarAngle controls) delta \<le> pi"
  shows "map_option polarAngle
           (useFrame_Experience (OrbitControls_update (dTheta, 0)) (Some controls) handPosition delta)
         = Some (max minPolar (min maxPolar (newPolar (handY handPosition) (polarAngle controls) delta)))"
proof -
  define r where "r = getDistance controls"
  define p where "p = newPolar (handY handPosition) (polarAngle controls) delta"
  define a where "a = newAzimuth (handX handPosition) (azimuthalAngle controls) delta"
  define c where "c = controls\<lparr> objectPosition := \<lparr> vx = r * sin p * sin a, vy = 4 + r * cos p, vz = r * sin p * cos a \<rparr>,
                               target := \<lparr> vx = 0, vy = 4, vz = 0 \<rparr> \<rparr>"
  have r: "0 < r" using assms(2) by (simp add: r_def)
  have u: "useFrame_Experience (OrbitControls_update (dTheta, 0)) (Some controls) handPosition delta
             = Some (OrbitControls_update (dTheta, 0) c)"
    using assms(1) by (simp add: useFrame_Experience_def Let_def c_def r_def p_def a_def)
  have off: "sub (objectPosition c) (target c) = \<lparr> vx = r * sin p * sin a, vy = r * cos p, vz = r * sin p * cos a \<rparr>"
    by (simp add: c_def sub_def)
  have rad: "sqrt ((r * sin p * sin a)\<^sup>2 + (r * cos p)\<^sup>2 + (r * sin p * cos a)\<^sup>2) = r"
    using r by (intro spherical_radius) simp
  have ac: "arccos (clamp (cos p) (- 1) 1) = p"
  proof -
    have "clamp (cos p) (- 1) 1 = cos p"
      by (simp add: clamp_def min_absorb2 max_absorb2)
    then show ?thesis using assms(3,4) by (simp add: p_def arccos_cos)
  qed
  have "(let offset = sub (objectPosition c) (target c);
             radius = sqrt ((vx offset)\<^sup>2 + (vy offset)\<^sup>2 + (vz offset)\<^sup>2)
         in if radius = 0 then 0 else arccos (clamp (vy offset / radius) (- 1) 1))
        = (if r = 0 then 0 else arccos (clamp (r * cos p / r) (- 1) 1))"
    unfolding Let_def off by (simp only: Vector3.select_convs rad)
  also have "\<dots> = p"
    using r ac by simp
  finally have "polarAngle (OrbitControls_update (dTheta, 0) c) = max minPolarAngle (min maxPolarAngle p)"
    unfolding OrbitControls_update_polar by simp
  with u show ?thesis
    by (simp add: p_def minPolar_def maxPolar_def minPolarAngle_def maxPolarAngle_def)
qed

text \<open>
  C5: for every hand input \<open>y\<close> the target polar angle, built from the re-biased and
  clamped \<open>y\<close>, lies between \<open>minPolar\<close> and \<open>maxPolar\<close>; and when the hand is
  detected the frame returns a camera whose polar angle lies between \<open>minPolar\<close> and
  \<open>maxPolar\<close>, for every hand position, every frame delta, every state of the controls
  and every pending pointer rotation.
\<close>

theorem camera_polar_within_bounds:
  "minPolar \<le> targetPolar y \<and> targetPolar y \<le> maxPolar
   \<and> (detected handPosition \<longrightarrow>
        (\<exists>c'. useFrame_Experience (OrbitControls_update sd) (Some controls) handPosition delta = Some c'
           \<and> minPolar \<le> polarAngle c' \<and> polarAngle c' \<le> maxPolar))"
proof -
  have "\<exists>c'. useFrame_Experience (OrbitControls_update sd) (Some controls) handPosition delta = Some c'
           \<and> minPolar \<le> polarAngle c' \<and> polarAngle c' \<le> maxPolar" if "detected handPosition"
    using that OrbitControls_update_polar_range by (simp add: useFrame_Experience_def Let_def)
  then show ?thesis using targetPolar_range [of y] by blast
qed

lemma sampleLowCamera_distance: "getDistance sampleLowCamera = 20"
proof -
  have "(10 * sqrt 2)\<^sup>2 + (10 * sqrt 2)\<^sup>2 = (20::real)\<^sup>2" by (simp add: power_mult_distrib)
  then have "sqrt ((10 * sqrt 2)\<^sup>2 + (10 * sqrt 2)\<^sup>2) = 20" by simp
  then show ?thesis by (simp add: getDistance_def sampleLowCamera_def distanceTo_def)
qed

text \<open>
  C5 at the extremes \<open>y = 0\<close> and \<open>y = 1\<close>, and on the long frame above: the
  interpolated angle is \<open>133 * pi / 180\<close> and the camera ends at \<open>maxPolar\<close>.
\<close>

theorem camera_polar_within_bounds_witness:
  "newPolar 1 (pi / 4) (1/5) = 133 * pi / 180
   \<and> map_option polarAngle
       (useFrame_Experience (OrbitControls_update (0, 0)) (Some sampleLowCamera)
          \<lparr> handX = 1/2, handY = 1, detected = True \<rparr> (1/5)) = Some maxPolar
   \<and> targetPolar 0 = minPolar \<and> targetPolar 1 = maxPolar"
proof -
  let ?h = "\<lparr> handX = 1/2, handY = 1, detected = True \<rparr>"
  have n: "newPolar 1 (pi / 4) (1/5) = 133 * pi / 180"
    by (simp add: newPolar_def targetPolar_def clampedY_def adjustedY_def minPolar_def
        maxPolar_def lerpSpeed_def field_simps)
  have t: "targetPolar 0 = minPolar \<and> targetPolar 1 = maxPolar"
    by (simp add: targetPolar_def clampedY_def adjustedY_def)
  have "map_option polarAngle
          (useFrame_Experience (OrbitControls_update (0, 0)) (Some sampleLowCamera) ?h (1/5))
        = Some (max minPolar (min maxPolar (newPolar (handY ?h) (polarAngle sampleLowCamera) (1/5))))"
    by (rule useFrame_Experience_polar) (simp_all add: sampleLowCamera_distance, simp_all add: sampleLowCamera_def n)
  moreover have "max minPolar (min maxPolar (133 * pi / 180)) = maxPolar"
    using pi_gt_zero by (simp add: minPolar_def maxPolar_def max_def min_def field_simps)
  ultimately have "map_option polarAngle
          (useFrame_Experience (OrbitControls_update (0, 0)) (Some sampleLowCamera) ?h (1/5)) = Some maxPolar"
    by (simp add: sampleLowCamera_def n)
  with n t camera_polar_within_bounds [of 1 ?h "(0, 0)" sampleLowCamera "1/5"] show ?thesis
    by simp
qed

text \<open>
  C6: when the hand is not detected the callback leaves the controls exactly as they
  were: both angles, the camera position and the look-at target.
\<close>

theorem useFrame_Experience_not_detected:
  "\<not> detected handPosition
     \<Longrightarrow> useFrame_Experience update controlsRef handPosition delta = controlsRef"
  by (simp add: useFrame_Experience_def split: option.splits)

text \<open>C6 on a sample camera, for a hand that is not detected.\<close>

theorem useFrame_Experience_not_detected_witness:
  "useFrame_Experience (\<lambda>c. c) (Some sampleControls)
       \<lparr> handX = 1/2, handY = 1/2, detected = False \<rparr> (1/60)
     = Some sampleControls"
  using useFrame_Experience_not_detected
    [of "\<lparr> handX = 1/2, handY = 1/2, detected = False \<rparr>" "\<lambda>c. c" "Some sampleControls" "1/60"]
  by simp

end
